theory Spec2Isabelle
  imports Main "HOL-Library.Sublist"
begin

section \<open>Python string operations used by the request loop\<close>

text \<open>
  Texts are lists of characters with code points below 256. \<open>py_isspace\<close> is the set of
  characters that \<^verbatim>\<open>str.strip()\<close> removes in that range.
\<close>

definition py_isspace :: "char \<Rightarrow> bool" where
  "py_isspace c \<longleftrightarrow> c \<in> {CHR 0x09, CHR 0x0A, CHR 0x0B, CHR 0x0C, CHR 0x0D,
     CHR 0x1C, CHR 0x1D, CHR 0x1E, CHR 0x1F, CHR 0x20, CHR 0x85, CHR 0xA0}"

definition py_strip :: "string \<Rightarrow> string" where
  "py_strip s = rev (dropWhile py_isspace (rev (dropWhile py_isspace s)))"

text \<open>
  \<^verbatim>\<open>s.find(sub, start)\<close>: the lowest index at or after \<open>start\<close> where \<open>sub\<close> begins,
  \<open>-1\<close> when there is none. \<open>find_at sub cs i\<close> scans the rest \<open>cs\<close> of the text, which
  begins at index \<open>i\<close>.
\<close>

fun find_at :: "string \<Rightarrow> string \<Rightarrow> nat \<Rightarrow> int" where
  "find_at sub [] i = (if sub = [] then int i else - 1)"
| "find_at sub (c # cs) i = (if prefix sub (c # cs) then int i else find_at sub cs (Suc i))"

definition py_find :: "string \<Rightarrow> string \<Rightarrow> int \<Rightarrow> int" where
  "py_find s sub start =
     (let lo = (if start < 0 then nat (max 0 (start + int (length s))) else nat start)
      in if length s < lo then - 1 else find_at sub (drop lo s) lo)"

text \<open>\<^verbatim>\<open>sub in s\<close>.\<close>

definition py_in :: "string \<Rightarrow> string \<Rightarrow> bool" where
  "py_in sub s \<longleftrightarrow> py_find s sub 0 \<noteq> - 1"

text \<open>
  \<^verbatim>\<open>s[a:b]\<close>: a negative bound counts from the end, and both bounds are clipped to the
  text.
\<close>

definition slice_index :: "nat \<Rightarrow> int \<Rightarrow> nat" where
  "slice_index n i = (if i < 0 then nat (max 0 (i + int n)) else min n (nat i))"

definition py_slice :: "string \<Rightarrow> int \<Rightarrow> int \<Rightarrow> string" where
  "py_slice s a b =
     (let lo = slice_index (length s) a; hi = slice_index (length s) b
      in take (hi - lo) (drop lo s))"

text \<open>
  The action type recorded in the history (\<^verbatim>\<open>main.py\<close>, lines 180 to 187):
  \<^verbatim>\<open>
  action_type = "Unknown"
  if "Action Type:" in response['answer']:
      action_start = response['answer'].find("Action Type:") + len("Action Type:")
      action_end = response['answer'].find("\n", action_start)
      action_type = response['answer'][action_start:action_end].strip()
  elif "ERROR:" in response['answer']:
      action_type = "Error"
  \<close>
\<close>

definition extract_action_type :: "string \<Rightarrow> string" where
  "extract_action_type answer =
     (if py_in ''Action Type:'' answer then
        (let action_start = py_find answer ''Action Type:'' 0 + int (length ''Action Type:'');
             action_end = py_find answer ''\<newline>'' action_start
         in py_strip (py_slice answer action_start action_end))
      else if py_in ''ERROR:'' answer then ''Error''
      else ''Unknown'')"


section \<open>The world outside the program\<close>

text \<open>
  A Python exception is kept as its class, as far as \<^verbatim>\<open>main\<close> tells classes apart, and
  its message \<^verbatim>\<open>str(e)\<close>.
\<close>

datatype exn = ValueError string | OtherError string

fun str_exn :: "exn \<Rightarrow> string" where
  "str_exn (ValueError m) = m"
| "str_exn (OtherError m) = m"

text \<open>What the page shows: one entry per Streamlit call, in the order of the calls.\<close>

datatype msg = Error string | Info string | Warning string | Success string
  | Markdown string | Button string

text \<open>
  The file system maps a path to what is there. \<^verbatim>\<open>os.remove\<close> deletes a \<open>Removable\<close>
  entry and raises \<^verbatim>\<open>OSError\<close> on a \<open>Protected\<close> one (a directory, or a file the
  operating system refuses to delete) and on a missing one. Two kinds of entry are not seen
  by \<^verbatim>\<open>os.path.exists\<close>: a \<open>Dangling\<close> symbolic link, which \<^verbatim>\<open>os.remove\<close> unlinks, and
  an \<open>Unreachable\<close> entry under a directory that may not be searched, on which
  \<^verbatim>\<open>os.remove\<close> raises. The text of an \<^verbatim>\<open>OSError\<close> is its error number, its
  description and the quoted path; the number and description of a refusal differ between
  systems.
\<close>

datatype node = Removable | Protected | Dangling | Unreachable

type_synonym fs = "string \<Rightarrow> node option"

definition os_path_exists :: "fs \<Rightarrow> string \<Rightarrow> bool" where
  "os_path_exists f p \<longleftrightarrow> f p = Some Removable \<or> f p = Some Protected"

definition os_error :: "string \<Rightarrow> string \<Rightarrow> exn" where
  "os_error what p = OtherError (what @ '': '' @ [CHR 0x27] @ p @ [CHR 0x27])"

definition os_remove :: "fs \<Rightarrow> string \<Rightarrow> exn + fs" where
  "os_remove f p =
     (case f p of
        None \<Rightarrow> Inl (os_error ''[Errno 2] No such file or directory'' p)
      | Some Protected \<Rightarrow> Inl (os_error ''[Errno 1] Operation not permitted'' p)
      | Some Unreachable \<Rightarrow> Inl (os_error ''[Errno 13] Permission denied'' p)
      | Some Removable \<Rightarrow> Inr (f(p := None))
      | Some Dangling \<Rightarrow> Inr (f(p := None)))"

record document =
  page_content :: string
  metadata :: "(string \<times> string) list"

text \<open>The arguments of a \<^verbatim>\<open>HuggingFaceEmbeddings(...)\<close> call.\<close>

record emb_config =
  model_name :: string
  model_kwargs :: "(string \<times> string) list"
  encode_kwargs :: "(string \<times> bool) list"

text \<open>Calls that leave the program: libraries, the embedding model, the generation backend.\<close>

datatype call =
    Loader_load string
  | Split_documents nat nat "document list"
  | Embeddings_init emb_config
  | Faiss_from_documents "document list" emb_config
  | Faiss_save_local string
  | Faiss_load_local string emb_config
  | Llm_init string string
  | Retriever_query string
  | Llm_generate string

record world =
  files :: fs
  ui :: "msg list"
  calls :: "call list"
  google_api_key :: "string option"

definition st :: "msg \<Rightarrow> world \<Rightarrow> world" where
  "st m w = w\<lparr>ui := ui w @ [m]\<rparr>"

definition called :: "call \<Rightarrow> world \<Rightarrow> world" where
  "called c w = w\<lparr>calls := calls w @ [c]\<rparr>"

text \<open>
  What the libraries answer. None of this code is part of the repository, so every result
  is a parameter: a loader, a splitter, an embedding model that may fail to initialise, an
  index builder, the index files' writer and reader, a retriever over an index \<open>'vs\<close>, and
  the generation backend.
\<close>

record 'vs env =
  loader_load :: "string \<Rightarrow> exn + document list"
  split_documents :: "nat \<Rightarrow> nat \<Rightarrow> document list \<Rightarrow> exn + document list"
  embeddings_init :: "emb_config \<Rightarrow> exn option"
  faiss_from_documents :: "document list \<Rightarrow> emb_config \<Rightarrow> exn + 'vs"
  faiss_save_local :: "'vs \<Rightarrow> string \<Rightarrow> fs \<Rightarrow> fs \<times> exn option"
  faiss_load_local :: "string \<Rightarrow> emb_config \<Rightarrow> fs \<Rightarrow> exn + 'vs"
  llm_init :: "string \<Rightarrow> string \<Rightarrow> exn option"
  retriever :: "'vs \<Rightarrow> string \<Rightarrow> exn + document list"
  llm_generate :: "string \<Rightarrow> string \<Rightarrow> string \<Rightarrow> exn + string"

section \<open>Configuration (config.py)\<close>

text \<open>Paths are written relative to \<^verbatim>\<open>BASE_DIR\<close>.\<close>

definition DATA_DIR :: string where
  "DATA_DIR = ''data''"

definition FAISS_INDEX_PATH :: string where
  "FAISS_INDEX_PATH = ''faiss/healthcare_index''"

definition EMBEDDING_MODEL :: string where
  "EMBEDDING_MODEL = ''all-MiniLM-L6-v2''"

definition LLM_MODEL :: string where
  "LLM_MODEL = ''gemini-2.0-flash''"

definition CHUNK_SIZE :: nat where
  "CHUNK_SIZE = 500"

definition CHUNK_OVERLAP :: nat where
  "CHUNK_OVERLAP = 100"

definition faiss_file :: string where
  "faiss_file = FAISS_INDEX_PATH @ ''.faiss''"

definition pkl_file :: string where
  "pkl_file = FAISS_INDEX_PATH @ ''.pkl''"

section \<open>Credential check (api_validator.py)\<close>

definition validate_api_key :: "'vs env \<Rightarrow> string \<Rightarrow> world \<Rightarrow> (bool \<times> string option) \<times> world" where
  "validate_api_key e api_key w =
     (if api_key = [] then ((False, Some ''API key is empty''), w)
      else
        (let w1 = called (Llm_init LLM_MODEL api_key) w
         in case llm_init e LLM_MODEL api_key of
              None \<Rightarrow> ((True, None), w1)
            | Some x \<Rightarrow> ((False, Some (str_exn x)), w1)))"

section \<open>Documents and the index (document_loader.py)\<close>

text \<open>
  \<^verbatim>\<open>load_documents\<close> wraps the loader in \<^verbatim>\<open>try ... except Exception\<close>; the handler
  reports the error and returns the empty list. The result is a sum so that a raise, had
  the function one, would be \<open>Inl\<close>.
\<close>

definition load_documents :: "'vs env \<Rightarrow> string \<Rightarrow> world \<Rightarrow> (exn + document list) \<times> world" where
  "load_documents e directory_path w =
     (let w1 = called (Loader_load directory_path) w
      in case loader_load e directory_path of
           Inr docs \<Rightarrow> (Inr docs, w1)
         | Inl x \<Rightarrow> (Inr [], st (Error (''Error loading documents: '' @ str_exn x)) w1))"

text \<open>\<^verbatim>\<open>process_documents\<close> has no handler: what the splitter raises, it raises.\<close>

definition process_documents :: "'vs env \<Rightarrow> document list \<Rightarrow> world \<Rightarrow> (exn + document list) \<times> world" where
  "process_documents e docs w =
     (split_documents e CHUNK_SIZE CHUNK_OVERLAP docs,
      called (Split_documents CHUNK_SIZE CHUNK_OVERLAP docs) w)"

definition save_vectorstore :: "'vs env \<Rightarrow> 'vs \<Rightarrow> world \<Rightarrow> world" where
  "save_vectorstore e vs w =
     (let w1 = called (Faiss_save_local FAISS_INDEX_PATH) w;
          (f, r) = faiss_save_local e vs FAISS_INDEX_PATH (files w1);
          w2 = w1\<lparr>files := f\<rparr>
      in case r of
           None \<Rightarrow> st (Success ''Vector index saved successfully!'') w2
         | Some x \<Rightarrow> st (Error (''Error saving vector index: '' @ str_exn x)) w2)"

definition primary_embeddings :: emb_config where
  "primary_embeddings =
     \<lparr>model_name = EMBEDDING_MODEL,
      model_kwargs = [(''device'', ''cpu'')],
      encode_kwargs = [(''normalize_embeddings'', True)]\<rparr>"

definition fallback_embeddings :: emb_config where
  "fallback_embeddings =
     \<lparr>model_name = ''all-MiniLM-L6-v2'', model_kwargs = [], encode_kwargs = []\<rparr>"

text \<open>
  The body that both \<^verbatim>\<open>try\<close> blocks of \<^verbatim>\<open>create_vectorstore\<close> share, up to the
  embedding configuration: initialise the embeddings, build the index, save it if asked.
\<close>

definition build_index :: "'vs env \<Rightarrow> emb_config \<Rightarrow> document list \<Rightarrow> bool \<Rightarrow> world \<Rightarrow> (exn + 'vs) \<times> world" where
  "build_index e cfg documents save_local w =
     (let w1 = called (Embeddings_init cfg) w
      in case embeddings_init e cfg of
           Some x \<Rightarrow> (Inl x, w1)
         | None \<Rightarrow>
             (let w2 = called (Faiss_from_documents documents cfg) w1
              in case faiss_from_documents e documents cfg of
                   Inl x \<Rightarrow> (Inl x, w2)
                 | Inr vs \<Rightarrow> (Inr vs, if save_local then save_vectorstore e vs w2 else w2)))"

definition create_vectorstore :: "'vs env \<Rightarrow> document list \<Rightarrow> bool \<Rightarrow> world \<Rightarrow> 'vs option \<times> world" where
  "create_vectorstore e documents save_local w =
     (case build_index e primary_embeddings documents save_local w of
        (Inr vs, w1) \<Rightarrow> (Some vs, w1)
      | (Inl x, w1) \<Rightarrow>
          (let w2 = st (Error (''Error creating vector store: '' @ str_exn x)) w1;
               w3 = st (Info ''Trying alternative embedding initialization...'') w2
           in case build_index e fallback_embeddings documents save_local w3 of
                (Inr vs, w4) \<Rightarrow> (Some vs, w4)
              | (Inl x2, w4) \<Rightarrow>
                  (None, st (Error (''Fallback embedding initialization also failed: '' @ str_exn x2)) w4)))"

text \<open>The shared body of the two \<^verbatim>\<open>try\<close> blocks of \<^verbatim>\<open>load_vectorstore\<close>.\<close>

definition read_index :: "'vs env \<Rightarrow> emb_config \<Rightarrow> string \<Rightarrow> world \<Rightarrow> (exn + 'vs) \<times> world" where
  "read_index e cfg done w =
     (let w1 = called (Embeddings_init cfg) w
      in case embeddings_init e cfg of
           Some x \<Rightarrow> (Inl x, w1)
         | None \<Rightarrow>
             (let w2 = called (Faiss_load_local FAISS_INDEX_PATH cfg) w1
              in case faiss_load_local e FAISS_INDEX_PATH cfg (files w2) of
                   Inl x \<Rightarrow> (Inl x, w2)
                 | Inr vs \<Rightarrow> (Inr vs, st (Success done) w2)))"

definition load_vectorstore :: "'vs env \<Rightarrow> world \<Rightarrow> 'vs option \<times> world" where
  "load_vectorstore e w =
     (if os_path_exists (files w) faiss_file then
        (case read_index e primary_embeddings ''Loaded existing vector index!'' w of
           (Inr vs, w1) \<Rightarrow> (Some vs, w1)
         | (Inl x, w1) \<Rightarrow>
             (let w2 = st (Error (''Error loading vector index: '' @ str_exn x)) w1
              in if os_path_exists (files w2) faiss_file then
                   (let w3 = st (Info ''Trying alternative embedding initialization for loading...'') w2
                    in case read_index e fallback_embeddings
                              ''Loaded existing vector index with alternative method!'' w3 of
                         (Inr vs, w4) \<Rightarrow> (Some vs, w4)
                       | (Inl x2, w4) \<Rightarrow>
                           (None, st (Error (''Fallback loading also failed: '' @ str_exn x2)) w4))
                 else (None, w2)))
      else (None, w))"

text \<open>
  \<^verbatim>\<open>reset_vectorstore\<close>: the vector-data file first, then the metadata file, each only
  if it exists; the first \<^verbatim>\<open>os.remove\<close> that raises ends the function with \<open>False\<close>,
  and what was removed before stays removed.
\<close>

definition reset_vectorstore :: "world \<Rightarrow> bool \<times> world" where
  "reset_vectorstore w =
     (case (if os_path_exists (files w) faiss_file then os_remove (files w) faiss_file
            else Inr (files w)) of
        Inl x \<Rightarrow> (False, st (Error (''Error resetting vector index: '' @ str_exn x)) w)
      | Inr f1 \<Rightarrow>
          (case (if os_path_exists f1 pkl_file then os_remove f1 pkl_file else Inr f1) of
             Inl x \<Rightarrow>
               (False, st (Error (''Error resetting vector index: '' @ str_exn x)) (w\<lparr>files := f1\<rparr>))
           | Inr f2 \<Rightarrow>
               (True, st (Success ''Vector index reset successfully!'') (w\<lparr>files := f2\<rparr>))))"

section \<open>The prompt and the chain (llm_chain.py)\<close>

text \<open>\<^verbatim>\<open>sep.join(xs)\<close>.\<close>

fun py_join :: "string \<Rightarrow> string list \<Rightarrow> string" where
  "py_join sep [] = []"
| "py_join sep [x] = x"
| "py_join sep (x # y # ys) = x @ sep @ py_join sep (y # ys)"

definition SENTINEL :: string where
  "SENTINEL = ''ERROR: The request mentions entities that do not exist in the database schema. Please verify your request and try again.''"

definition RESPONSE_RULE :: string where
  \<open>RESPONSE_RULE = ''[If the request mentions ANY entity that does not exist in the database schema, respond ONLY with the error message: "'' @ SENTINEL @ ''"]''\<close>

text \<open>
  The template of \<^verbatim>\<open>get_prompt_template\<close>, line by line: the text before
  \<^verbatim>\<open>{context}\<close> and the text after \<^verbatim>\<open>{input}\<close>.
\<close>

definition TEMPLATE_HEAD :: string where
  \<open>TEMPLATE_HEAD = py_join ''\<newline>''
    [
     '''',
     ''You are HDBRA (Healthcare Database Request Assistant), an expert backend database engineer specializing in healthcare IT systems.'',
     ''Your primary responsibility is to process service requests (SRs) from healthcare professionals who need database-level changes or reports that cannot be performed through the user interface.'',
     '''',
     ''### Database Context:'',
     ''You have access to a comprehensive healthcare database with the following schema:'',
     ''- Doctors (doctor_id, name, gender, email, phone, date_joined, status)'',
     ''- Doctor_Licenses (license_id, doctor_id, license_number, issue_date, expiry_date, issuing_authority)'',
     ''- Specializations (specialization_id, name, description)'',
     ''- Doctor_Specializations (doctor_id, specialization_id, certification_date)'',
     ''- Hospitals (hospital_id, name, address, city, state, contact_number, email)'',
     ''- Departments (dept_id, hospital_id, name, floor, wing, head_doctor_id)'',
     ''- Doctor_Hospital_Assignments (assignment_id, doctor_id, hospital_id, dept_id, start_date, end_date, status)'',
     ''- Patients (patient_id, name, gender, date_of_birth, address, phone, email, blood_group, registration_date)'',
     ''- Appointments (appointment_id, patient_id, doctor_id, hospital_id, dept_id, appointment_date, status, notes)'',
     '''',
     ''### Your task:'',
     ''For each service request, provide a professional response with:'',
     ''1. Action Type: Categorize the request (Update, Correction, Assignment, Report, Data Integrity)'',
     ''2. Target Table(s): Identify the primary tables affected by the request'',
     ''3. SQL Solution: Generate the precise SQL query or stored procedure to fulfill the request'',
     ''4. Explanation: Provide a clear, concise explanation of what the SQL does and any considerations'',
     '''',
     ''### Rules:'',
     ''- Carefully check if the request involves ONLY entities (tables, columns, and record types) that are explicitly listed in the Database Context above.'',
     ''- Be flexible with common formatting variations (e.g., 'hospital ID' should be understood as referring to 'hospital_id').'',
     ''- Understand that tables may be related to each other (e.g., patients are connected to hospitals through the Appointments table).'',
     ''- If the request mentions ANY entity that does not exist in the schema (like 'kids', 'government officer', 'employee', 'insurance'), respond with this exact message: "'' @ SENTINEL @ ''"'',
     ''- Do not try to interpret non-existent entities as existing ones (e.g., don't interpret 'kids' as 'doctors' or 'patients').'',
     '''',
     ''Example of incorrect request: "Update the government officer number for patient ID 1042 to +91-8885544332"'',
     ''Correct response: "'' @ SENTINEL @ ''"'',
     '''',
     ''Example of incorrect request: "List all kids specialized in Neurology currently assigned to hospital ID 3"'',
     ''Correct response: "'' @ SENTINEL @ ''"'',
     '''',
     ''Example of correct request: "Update the phone number for patient ID 1042 to +91-8885544332"'',
     ''This is valid because 'phone' is a column in the Patients table.'',
     '''',
     ''Example of correct request: "List all doctors specialized in Neurology currently assigned to hospital ID 3"'',
     ''This is valid because it refers to entities that exist in the schema: 'doctors', 'specialized' (Specializations), and 'hospital_id'.'',
     '''',
     ''Example of correct request: "Get the number of patients registered in hospital ID 5 last month"'',
     ''This is valid because it refers to 'hospital_id' in the Hospitals table and 'registration_date' in the Patients table, which can be joined through the Appointments table.'',
     '''',
     ''Always prioritize data integrity and follow healthcare data handling best practices. For updates to critical fields, include appropriate WHERE clauses to ensure precise targeting.'',
     '''',
     ''''
    ]\<close>

definition TEMPLATE_TAIL :: string where
  \<open>TEMPLATE_TAIL = py_join ''\<newline>''
    [
     '''',
     '''',
     ''### Response:'',
     RESPONSE_RULE,
     '''',
     ''[For all valid requests that only reference entities in the schema (with allowance for formatting variations like 'hospital ID' for 'hospital_id'), provide the following information:]'',
     ''Action Type:'',
     ''Target Table(s):'',
     ''SQL Solution:'',
     ''sql'',
     ''-- SQL query here'',
     '''',
     ''Explanation:'',
     ''''
    ]\<close>

definition render_prompt :: "string \<Rightarrow> string \<Rightarrow> string" where
  "render_prompt context input =
     TEMPLATE_HEAD @ context @ ''\<newline>### Service Request:\<newline>'' @ input @ TEMPLATE_TAIL"

text \<open>
  \<^verbatim>\<open>setup_llm_chain\<close> raises \<^verbatim>\<open>ValueError\<close> when the key is missing or empty and when
  the backend cannot be initialised. A chain is the model and the key it was built with.
\<close>

definition setup_llm_chain :: "'vs env \<Rightarrow> world \<Rightarrow> (exn + string \<times> string) \<times> world" where
  "setup_llm_chain e w =
     (case google_api_key w of
        None \<Rightarrow> (Inl (ValueError ''Google API key not found. Please provide a valid API key.''), w)
      | Some api_key \<Rightarrow>
          if api_key = [] then
            (Inl (ValueError ''Google API key not found. Please provide a valid API key.''), w)
          else
            (let w1 = called (Llm_init LLM_MODEL api_key) w
             in case llm_init e LLM_MODEL api_key of
                  Some x \<Rightarrow>
                    (Inl (ValueError (''Error initializing LLM: '' @ str_exn x @ ''. Please check your API key.'')), w1)
                | None \<Rightarrow> (Inr (LLM_MODEL, api_key), w1)))"

definition create_retrieval_chain_with_vectorstore ::
    "'vs env \<Rightarrow> 'vs \<Rightarrow> world \<Rightarrow> (exn + 'vs \<times> string \<times> string) \<times> world" where
  "create_retrieval_chain_with_vectorstore e vs w =
     (case setup_llm_chain e w of
        (Inl x, w1) \<Rightarrow> (Inl x, w1)
      | (Inr document_chain, w1) \<Rightarrow> (Inr (vs, document_chain), w1))"

record response =
  question :: string
  retrieved :: "document list"
  answer :: string

text \<open>
  \<^verbatim>\<open>retrieval_chain.invoke({"input": input_text})\<close>: the retriever's documents, joined by
  a blank line, fill \<^verbatim>\<open>{context}\<close>; the backend's text is the answer, unchanged.
\<close>

definition invoke :: "'vs env \<Rightarrow> 'vs \<times> string \<times> string \<Rightarrow> string \<Rightarrow> world \<Rightarrow> (exn + response) \<times> world" where
  "invoke e chain input w =
     (case chain of (vs, model, api_key) \<Rightarrow>
        (let w1 = called (Retriever_query input) w
         in case retriever e vs input of
              Inl x \<Rightarrow> (Inl x, w1)
            | Inr docs \<Rightarrow>
                (let prompt = render_prompt (py_join ''\<newline>\<newline>'' (map page_content docs)) input;
                     w2 = called (Llm_generate prompt) w1
                 in case llm_generate e model api_key prompt of
                      Inl x \<Rightarrow> (Inl x, w2)
                    | Inr text \<Rightarrow> (Inr \<lparr>question = input, retrieved = docs, answer = text\<rparr>, w2))))"

text \<open>One request through the pipeline: lines 175 and 178 of \<^verbatim>\<open>main.py\<close>.\<close>

definition process :: "'vs env \<Rightarrow> 'vs \<Rightarrow> string \<Rightarrow> world \<Rightarrow> (exn + response) \<times> world" where
  "process e vs input w =
     (case create_retrieval_chain_with_vectorstore e vs w of
        (Inl x, w1) \<Rightarrow> (Inl x, w1)
      | (Inr chain, w1) \<Rightarrow> invoke e chain input w1)"

section \<open>The page (main.py, main_content.py)\<close>

record 'vs session =
  history :: "(string \<times> string) list"
  api_key_valid :: bool
  vectorstore :: "'vs option"

definition display_response :: "response \<Rightarrow> world \<Rightarrow> world" where
  "display_response r w =
     (let is_error = py_in ''ERROR:'' (answer r);
          w1 = st (Markdown (if is_error then ''<div class='error-response'>''
                             else ''<div class='success-response'>'')) w;
          w2 = st (Markdown ''### Response:'') w1;
          w3 = st (Markdown (answer r)) w2
      in st (Markdown ''</div>'') w3)"

definition simple_docs :: "document list" where
  "simple_docs =
     [\<lparr>page_content = ''This is a test document for healthcare database requests.'', metadata = []\<rparr>]"

definition simple_embeddings :: emb_config where
  "simple_embeddings =
     \<lparr>model_name = ''all-MiniLM-L6-v2'', model_kwargs = [(''device'', ''cpu'')], encode_kwargs = []\<rparr>"

text \<open>
  Lines 119 to 144 of \<^verbatim>\<open>main\<close>: keep the index in the session, or, without one, build
  the simplified index from the one test document.
\<close>

definition store_or_simplify :: "'vs env \<Rightarrow> 'vs option \<Rightarrow> 'vs session \<Rightarrow> world \<Rightarrow> 'vs session \<times> world" where
  "store_or_simplify e vs s w =
     (case vs of
        Some v \<Rightarrow> (s\<lparr>vectorstore := Some v\<rparr>, w)
      | None \<Rightarrow>
          (let w1 = st (Warning ''Could not create a proper vector database. Using a simplified version for testing.'') w
           in case build_index e simple_embeddings simple_docs False w1 of
                (Inr v, w2) \<Rightarrow>
                  (s\<lparr>vectorstore := Some v\<rparr>,
                   st (Info ''Using simplified vector database for basic functionality.'') w2)
              | (Inl x2, w2) \<Rightarrow>
                  (s, st (Error ''The application cannot function without a vector database.'')
                        (st (Error (''Could not create even a simplified vector database: '' @ str_exn x2)) w2))))"

text \<open>Lines 145 to 168: the handler of the outer \<^verbatim>\<open>try\<close>.\<close>

definition setup_failed :: "'vs env \<Rightarrow> exn \<Rightarrow> 'vs session \<Rightarrow> world \<Rightarrow> 'vs session \<times> world" where
  "setup_failed e x s w =
     (let w1 = st (Error (''Error setting up the document database: '' @ str_exn x)) w;
          w2 = st (Info ''Attempting to use a simplified version for testing.'') w1
      in case build_index e simple_embeddings simple_docs False w2 of
           (Inr v, w3) \<Rightarrow>
             (s\<lparr>vectorstore := Some v\<rparr>,
              st (Info ''Using simplified vector database for basic functionality.'') w3)
         | (Inl x2, w3) \<Rightarrow>
             (s, st (Error ''The application cannot function without a vector database.'')
                   (st (Error (''Could not create even a simplified vector database: '' @ str_exn x2)) w3)))"

text \<open>Lines 103 to 168 of \<^verbatim>\<open>main\<close>: give the session an index if it has none.\<close>

definition main_vectorstore :: "'vs env \<Rightarrow> 'vs session \<Rightarrow> world \<Rightarrow> 'vs session \<times> world" where
  "main_vectorstore e s w =
     (if vectorstore s \<noteq> None then (s, w)
      else
        (case load_vectorstore e w of
           (Some v, w1) \<Rightarrow> store_or_simplify e (Some v) s w1
         | (None, w1) \<Rightarrow>
             (let w2 = st (Info ''Attempting to load documents'') w1
              in case load_documents e DATA_DIR w2 of
                   (Inl x, w3) \<Rightarrow> setup_failed e x s w3
                 | (Inr docs, w3) \<Rightarrow>
                     if docs = [] then
                       store_or_simplify e None s
                         (st (Warning (''No documents found in '' @ DATA_DIR @ ''. Please check the path.'')) w3)
                     else
                       (case process_documents e docs w3 of
                          (Inl x, w4) \<Rightarrow> setup_failed e x s w4
                        | (Inr documents, w4) \<Rightarrow>
                            (case create_vectorstore e documents True w4 of
                               (vs, w5) \<Rightarrow> store_or_simplify e vs s w5)))))"

text \<open>
  Lines 170 to 202 of \<^verbatim>\<open>main\<close>: one click on the submit button. A \<^verbatim>\<open>ValueError\<close>
  sends the user back to the key form; any other exception is only reported.
\<close>

definition main_request :: "'vs env \<Rightarrow> string \<Rightarrow> bool \<Rightarrow> 'vs session \<Rightarrow> world \<Rightarrow> 'vs session \<times> world" where
  "main_request e input_text submit_button s w =
     (case vectorstore s of
        None \<Rightarrow> (s, w)
      | Some vs \<Rightarrow>
          if submit_button \<and> input_text \<noteq> [] then
            (case process e vs input_text w of
               (Inr r, w1) \<Rightarrow>
                 (let action_type = extract_action_type (answer r)
                  in (s\<lparr>history := history s @ [(input_text, action_type)]\<rparr>,
                      display_response r w1))
             | (Inl (ValueError m), w1) \<Rightarrow>
                 (s\<lparr>api_key_valid := False\<rparr>,
                  st (Button ''Re-enter API Key'') (st (Error (''API Key Error: '' @ m)) w1))
             | (Inl (OtherError m), w1) \<Rightarrow>
                 (s, st (Error (''An error occurred: '' @ m)) w1))
          else (s, w))"

section \<open>A concrete world for the examples\<close>

text \<open>
  An empty disk with a key in the environment, and libraries that behave as the installed
  ones do. The loader finds no document, the index is the number of documents it was built
  from, and the backend always answers with a report. The index writer follows
  \<^verbatim>\<open>FAISS.save_local(folder_path)\<close>: it writes \<^verbatim>\<open>index.faiss\<close> and then
  \<^verbatim>\<open>index.pkl\<close> inside the folder and raises at the first path that cannot be opened for
  writing. The index reader raises, as \<^verbatim>\<open>FAISS.load_local\<close> does when it is called
  without \<^verbatim>\<open>allow_dangerous_deserialization\<close>.
\<close>

definition write_file :: "fs \<Rightarrow> string \<Rightarrow> exn + fs" where
  "write_file f p =
     (case f p of
        Some Protected \<Rightarrow> Inl (os_error ''[Errno 21] Is a directory'' p)
      | Some Unreachable \<Rightarrow> Inl (os_error ''[Errno 13] Permission denied'' p)
      | Some Removable \<Rightarrow> Inr (f(p := Some Removable))
      | Some Dangling \<Rightarrow> Inr (f(p := Some Removable))
      | None \<Rightarrow> Inr (f(p := Some Removable)))"

definition demo_save_local :: "nat \<Rightarrow> string \<Rightarrow> fs \<Rightarrow> fs \<times> exn option" where
  "demo_save_local vs folder_path f =
     (case write_file f (folder_path @ ''/index.faiss'') of
        Inl x \<Rightarrow> (f, Some x)
      | Inr f1 \<Rightarrow>
          (case write_file f1 (folder_path @ ''/index.pkl'') of
             Inl x \<Rightarrow> (f1, Some x)
           | Inr f2 \<Rightarrow> (f2, None)))"

definition start_world :: world where
  "start_world = \<lparr>files = (\<lambda>p. None), ui = [], calls = [], google_api_key = Some ''demo-key''\<rparr>"

definition demo_env :: "nat env" where
  "demo_env =
     \<lparr>loader_load = (\<lambda>p. Inr []),
      split_documents = (\<lambda>size overlap docs. Inr docs),
      embeddings_init = (\<lambda>cfg. None),
      faiss_from_documents = (\<lambda>docs cfg. Inr (length docs)),
      faiss_save_local = demo_save_local,
      faiss_load_local = (\<lambda>p cfg f. Inl (ValueError ''allow_dangerous_deserialization is not set'')),
      llm_init = (\<lambda>model api_key. None),
      retriever = (\<lambda>vs input. Inr []),
      llm_generate = (\<lambda>model api_key prompt. Inr ''Action Type: Report\<newline>Target Table(s): Doctors'')\<rparr>"

text \<open>The disk right after an index of one document was saved to the empty disk.\<close>

definition saved_world :: world where
  "saved_world = save_vectorstore demo_env 1 start_world"

text \<open>A disk on which the metadata path inside the index folder is a directory.\<close>

definition blocked_world :: world where
  "blocked_world =
     start_world\<lparr>files := (\<lambda>p. None)(FAISS_INDEX_PATH @ ''/index.pkl'' := Some Protected)\<rparr>"

text \<open>A disk with a removable file and a protected entry at the two paths of a reset.\<close>

definition planted_world :: world where
  "planted_world =
     start_world\<lparr>files := (\<lambda>p. None)(faiss_file := Some Removable, pkl_file := Some Protected)\<rparr>"

section \<open>Searching a text\<close>

lemma find_at_absent: "\<not> sublist sub cs \<Longrightarrow> find_at sub cs i = - 1"
  by (induction cs arbitrary: i) (auto simp: sublist_Cons_right)

lemma find_at_lower: "sublist sub cs \<Longrightarrow> int i \<le> find_at sub cs i"
proof (induction cs arbitrary: i)
  case Nil
  then show ?case by simp
next
  case (Cons c cs)
  show ?case
  proof (cases "prefix sub (c # cs)")
    case True
    then show ?thesis by simp
  next
    case False
    with Cons.prems have "sublist sub cs"
      by (simp add: sublist_Cons_right)
    then have "int (Suc i) \<le> find_at sub cs (Suc i)"
      by (rule Cons.IH)
    with False show ?thesis by simp
  qed
qed

lemma py_in_iff_sublist: "py_in sub s \<longleftrightarrow> sublist sub s"
proof (cases "sublist sub s")
  case True
  from find_at_lower [OF True, of 0] have "find_at sub s 0 \<noteq> - 1" by simp
  with True show ?thesis by (simp add: py_in_def py_find_def)
next
  case False
  then show ?thesis by (simp add: py_in_def py_find_def find_at_absent)
qed

lemma prefix_append_short:
  "prefix xs (ys @ zs) \<Longrightarrow> length xs \<le> length ys \<Longrightarrow> prefix xs ys"
  by (auto simp: prefix_append)

lemma prefix_within:
  assumes "prefix sub (pre @ sub @ post)" and "pre \<noteq> []" and "sub \<noteq> []"
  shows "prefix sub (pre @ butlast sub)"
proof -
  have "pre @ sub @ post = (pre @ butlast sub) @ ([last sub] @ post)"
    using \<open>sub \<noteq> []\<close> by simp
  with assms(1) have "prefix sub ((pre @ butlast sub) @ ([last sub] @ post))"
    by simp
  moreover have "length sub \<le> length (pre @ butlast sub)"
    using \<open>pre \<noteq> []\<close> \<open>sub \<noteq> []\<close> by (cases pre) simp_all
  ultimately show ?thesis
    by (rule prefix_append_short)
qed

lemma find_at_first:
  assumes "sub \<noteq> []" and "\<not> sublist sub (pre @ butlast sub)"
  shows "find_at sub (pre @ sub @ post) i = int (i + length pre)"
  using assms(2)
proof (induction pre arbitrary: i)
  case Nil
  from \<open>sub \<noteq> []\<close> obtain c cs where "sub @ post = c # cs"
    by (cases sub) auto
  moreover have "prefix sub (sub @ post)" by simp
  ultimately show ?case by simp
next
  case (Cons p ps)
  have "\<not> prefix sub ((p # ps) @ sub @ post)"
  proof
    assume "prefix sub ((p # ps) @ sub @ post)"
    then have "prefix sub ((p # ps) @ butlast sub)"
      using \<open>sub \<noteq> []\<close> by (intro prefix_within) simp_all
    with Cons.prems show False by auto
  qed
  moreover from Cons.prems have "\<not> sublist sub (ps @ butlast sub)"
    by (simp add: sublist_Cons_right)
  then have "find_at sub (ps @ sub @ post) (Suc i) = int (Suc i + length ps)"
    by (rule Cons.IH)
  ultimately show ?case by simp
qed

lemma find_newline:
  assumes "CHR 0x0A \<notin> set mid"
  shows "find_at ''\<newline>'' (mid @ ''\<newline>'' @ rest) i = int (i + length mid)"
proof -
  have "\<not> sublist ''\<newline>'' mid"
  proof
    assume "sublist ''\<newline>'' mid"
    then have "set ''\<newline>'' \<subseteq> set mid" by (rule set_mono_sublist)
    with assms show False by simp
  qed
  then show ?thesis
    using find_at_first [of "''\<newline>''" mid rest i] by simp
qed

lemma extract_labelled:
  assumes first: "\<not> sublist ''Action Type:'' (pre @ butlast ''Action Type:'')"
    and line: "CHR 0x0A \<notin> set mid"
  shows "extract_action_type (pre @ ''Action Type:'' @ mid @ ''\<newline>'' @ rest) = py_strip mid"
proof -
  let ?label = "''Action Type:''"
  let ?s = "pre @ ?label @ mid @ ''\<newline>'' @ rest"
  have len: "length ?label = 12" by simp
  have "sublist ?label ?s" by (rule sublist_appendI)
  then have inn: "py_in ?label ?s" by (simp only: py_in_iff_sublist)
  have "find_at ?label ?s 0 = int (0 + length pre)"
    by (rule find_at_first) (use first in simp_all)
  then have start: "py_find ?s ?label 0 = int (length pre)"
    by (simp add: py_find_def)
  have dr: "drop (length pre + 12) ?s = mid @ ''\<newline>'' @ rest"
    by simp
  have "py_find ?s ''\<newline>'' (int (length pre) + 12)
      = find_at ''\<newline>'' (drop (length pre + 12) ?s) (length pre + 12)"
    by (simp add: py_find_def nat_add_distrib)
  also have "\<dots> = int (length pre + 12 + length mid)"
    unfolding dr using line by (rule find_newline)
  finally have stop: "py_find ?s ''\<newline>'' (int (length pre) + 12) = int (length pre + 12 + length mid)" .
  have "py_slice ?s (int (length pre) + 12) (int (length pre + 12 + length mid)) = mid"
    by (simp add: py_slice_def slice_index_def nat_add_distrib)
  with inn start stop show ?thesis
    by (simp add: extract_action_type_def)
qed


section \<open>The state of the world under the page's messages\<close>

lemma artifact_paths_differ: "faiss_file \<noteq> pkl_file"
  by (simp add: faiss_file_def pkl_file_def)

lemma files_st [simp]: "files (st m w) = files w"
  by (simp add: st_def)

lemma files_called [simp]: "files (called c w) = files w"
  by (simp add: called_def)

section \<open>Loading documents\<close>

text \<open>
  C1, as the spec states it, fails: with a loader that raises because the directory cannot
  be read, \<open>load_documents\<close> does not fail; it returns the empty list.
\<close>

theorem load_documents_counterexample:
  "fst (load_documents (demo_env\<lparr>loader_load := (\<lambda>p. Inl (OtherError ''Permission denied''))\<rparr>)
         DATA_DIR start_world) = Inr []"
  by (simp add: load_documents_def)

text \<open>
  C1, amended: \<open>load_documents\<close> never fails. It returns the loader's documents, and when
  the loader raises it reports the error on the page and returns the empty list, so an
  empty result comes from a directory without matching files or from a failed load.
\<close>

theorem load_documents_never_fails:
  "fst (load_documents e p w) = Inr (case loader_load e p of Inl x \<Rightarrow> [] | Inr docs \<Rightarrow> docs)
   \<and> ui (snd (load_documents e p w)) = ui w @
        (case loader_load e p of
           Inl x \<Rightarrow> [Error (''Error loading documents: '' @ str_exn x)]
         | Inr docs \<Rightarrow> [])"
  by (simp add: load_documents_def st_def called_def split: sum.split)

section \<open>Resetting the index\<close>

lemma saved_files:
  "files saved_world =
     (\<lambda>p. None)(FAISS_INDEX_PATH @ ''/index.faiss'' := Some Removable,
                FAISS_INDEX_PATH @ ''/index.pkl'' := Some Removable)"
  by (simp add: saved_world_def save_vectorstore_def Let_def demo_env_def demo_save_local_def
        write_file_def start_world_def)

lemma reset_nothing_found:
  assumes "\<not> os_path_exists (files w) faiss_file" and "\<not> os_path_exists (files w) pkl_file"
  shows "reset_vectorstore w = (True, st (Success ''Vector index reset successfully!'') w)"
  using assms by (simp add: reset_vectorstore_def)

lemma saved_invisible:
  "\<not> os_path_exists (files saved_world) faiss_file"
  "\<not> os_path_exists (files saved_world) pkl_file"
  by (simp_all add: os_path_exists_def saved_files faiss_file_def pkl_file_def FAISS_INDEX_PATH_def)

lemma saved_reset:
  "reset_vectorstore saved_world = (True, st (Success ''Vector index reset successfully!'') saved_world)"
  using saved_invisible by (rule reset_nothing_found)

text \<open>
  C6, at the disk right after a successful save: the saved vector-data file and metadata
  file are inside the index folder, \<open>reset_vectorstore\<close> looks for two other paths, so it
  reports success, and reports it again on the second call, while both saved files stay
  where they are. The first call is already without effect on the files, against the
  docstring's \<^verbatim>\<open>Delete the saved vectorstore files\<close>.
\<close>

theorem reset_after_save:
  "files saved_world (FAISS_INDEX_PATH @ ''/index.faiss'') = Some Removable
   \<and> files saved_world (FAISS_INDEX_PATH @ ''/index.pkl'') = Some Removable
   \<and> fst (reset_vectorstore saved_world) = True
   \<and> files (snd (reset_vectorstore saved_world)) = files saved_world
   \<and> fst (reset_vectorstore (snd (reset_vectorstore saved_world))) = True
   \<and> files (snd (reset_vectorstore (snd (reset_vectorstore saved_world)))) = files saved_world"
proof -
  have a: "files saved_world (FAISS_INDEX_PATH @ ''/index.faiss'') = Some Removable"
    by (simp add: saved_files)
  have b: "files saved_world (FAISS_INDEX_PATH @ ''/index.pkl'') = Some Removable"
    by (simp add: saved_files)
  have c: "fst (reset_vectorstore saved_world) = True"
    and d: "files (snd (reset_vectorstore saved_world)) = files saved_world"
    by (simp_all add: saved_reset)
  have again: "reset_vectorstore (st (Success ''Vector index reset successfully!'') saved_world)
      = (True, st (Success ''Vector index reset successfully!'')
                 (st (Success ''Vector index reset successfully!'') saved_world))"
    using saved_invisible by (intro reset_nothing_found) simp_all
  have e: "fst (reset_vectorstore (snd (reset_vectorstore saved_world))) = True"
    and f: "files (snd (reset_vectorstore (snd (reset_vectorstore saved_world)))) = files saved_world"
    by (simp_all add: saved_reset again)
  from a b c d e f show ?thesis by (intro conjI)
qed

section \<open>The two index files\<close>

lemma reset_result:
  "fst (reset_vectorstore w) \<longleftrightarrow>
     files w faiss_file \<noteq> Some Protected \<and> files w pkl_file \<noteq> Some Protected"
  using artifact_paths_differ
  by (cases "files w faiss_file"; cases "files w pkl_file")
     (auto simp: reset_vectorstore_def os_path_exists_def os_remove_def split: node.splits)

lemma reset_files:
  "files (snd (reset_vectorstore w)) faiss_file =
     (if files w faiss_file = Some Removable then None else files w faiss_file)
   \<and> files (snd (reset_vectorstore w)) pkl_file =
     (if files w pkl_file = Some Removable \<and> files w faiss_file \<noteq> Some Protected then None
      else files w pkl_file)
   \<and> (p \<noteq> faiss_file \<and> p \<noteq> pkl_file \<longrightarrow> files (snd (reset_vectorstore w)) p = files w p)"
  using artifact_paths_differ
  by (cases "files w faiss_file"; cases "files w pkl_file")
     (auto simp: reset_vectorstore_def os_path_exists_def os_remove_def split: node.splits)

lemma save_files:
  "files (save_vectorstore e vs w) = fst (faiss_save_local e vs FAISS_INDEX_PATH (files w))"
  by (simp add: save_vectorstore_def Let_def split: prod.split option.split)

lemma save_ui:
  "ui (save_vectorstore e vs w) = ui w @
     [case snd (faiss_save_local e vs FAISS_INDEX_PATH (files w)) of
        None \<Rightarrow> Success ''Vector index saved successfully!''
      | Some x \<Rightarrow> Error (''Error saving vector index: '' @ str_exn x)]"
  by (simp add: save_vectorstore_def Let_def st_def called_def split: prod.split option.split)

lemma planted_reset:
  "reset_vectorstore planted_world =
     (False, st (Error (''Error resetting vector index: ''
                   @ str_exn (os_error ''[Errno 1] Operation not permitted'' pkl_file)))
               (planted_world\<lparr>files := (files planted_world)(faiss_file := None)\<rparr>))"
  using artifact_paths_differ
  by (simp add: planted_world_def reset_vectorstore_def os_path_exists_def os_remove_def)

lemma blocked_save:
  "files (save_vectorstore demo_env 1 blocked_world) =
     (files blocked_world)(FAISS_INDEX_PATH @ ''/index.faiss'' := Some Removable)"
  by (simp add: save_vectorstore_def Let_def demo_env_def demo_save_local_def write_file_def
        blocked_world_def)

text \<open>
  C3, as the spec states it, fails. With a removable file at the first path of a reset and
  an entry that \<^verbatim>\<open>os.remove\<close> refuses at the second, \<open>reset_vectorstore\<close> removes the
  first, reports failure and leaves the second in place. And when the metadata path inside
  the index folder is a directory, a save writes the vector-data file, fails on the
  metadata file and leaves the disk like that.
\<close>

theorem artifacts_counterexample:
  "fst (reset_vectorstore planted_world) = False
   \<and> files planted_world faiss_file = Some Removable
   \<and> files (snd (reset_vectorstore planted_world)) faiss_file = None
   \<and> files (snd (reset_vectorstore planted_world)) pkl_file = Some Protected
   \<and> files blocked_world (FAISS_INDEX_PATH @ ''/index.faiss'') = None
   \<and> files (save_vectorstore demo_env 1 blocked_world) (FAISS_INDEX_PATH @ ''/index.faiss'')
       = Some Removable
   \<and> files (save_vectorstore demo_env 1 blocked_world) (FAISS_INDEX_PATH @ ''/index.pkl'')
       = Some Protected"
proof -
  have r1: "fst (reset_vectorstore planted_world) = False"
    by (simp add: planted_reset)
  have r2: "files planted_world faiss_file = Some Removable"
    using artifact_paths_differ by (simp add: planted_world_def)
  have r3: "files (snd (reset_vectorstore planted_world)) faiss_file = None"
    by (simp add: planted_reset)
  have r4: "files (snd (reset_vectorstore planted_world)) pkl_file = Some Protected"
    using artifact_paths_differ by (simp add: planted_reset) (simp add: planted_world_def)
  have s1: "files blocked_world (FAISS_INDEX_PATH @ ''/index.faiss'') = None"
    by (simp add: blocked_world_def)
  have s2: "files (save_vectorstore demo_env 1 blocked_world) (FAISS_INDEX_PATH @ ''/index.faiss'')
       = Some Removable"
    unfolding blocked_save by simp
  have s3: "files (save_vectorstore demo_env 1 blocked_world) (FAISS_INDEX_PATH @ ''/index.pkl'')
       = Some Protected"
    unfolding blocked_save by (simp add: blocked_world_def)
  from r1 r2 r3 r4 s1 s2 s3 show ?thesis by (intro conjI)
qed

text \<open>
  C3, amended: the two files are neither written nor removed as a unit, and nothing is
  rolled back. \<open>save_vectorstore\<close> leaves the disk exactly as the library's
  \<^verbatim>\<open>save_local\<close> left it, whether that call returned or raised, and reports the one or
  the other. \<open>reset_vectorstore\<close> takes its first path and then its second: it reports
  success exactly when the system refuses neither removal; the first path is removed
  whenever it can be; the second is removed whenever it can be and the first removal was
  not refused; any other entry, and every other path, is left as it was.
\<close>

theorem artifacts_not_atomic:
  "files (save_vectorstore e vs w) = fst (faiss_save_local e vs FAISS_INDEX_PATH (files w))
   \<and> ui (save_vectorstore e vs w) = ui w @
       [case snd (faiss_save_local e vs FAISS_INDEX_PATH (files w)) of
          None \<Rightarrow> Success ''Vector index saved successfully!''
        | Some x \<Rightarrow> Error (''Error saving vector index: '' @ str_exn x)]
   \<and> (fst (reset_vectorstore w) \<longleftrightarrow>
        files w faiss_file \<noteq> Some Protected \<and> files w pkl_file \<noteq> Some Protected)
   \<and> files (snd (reset_vectorstore w)) faiss_file =
       (if files w faiss_file = Some Removable then None else files w faiss_file)
   \<and> files (snd (reset_vectorstore w)) pkl_file =
       (if files w pkl_file = Some Removable \<and> files w faiss_file \<noteq> Some Protected then None
        else files w pkl_file)
   \<and> (p \<noteq> faiss_file \<and> p \<noteq> pkl_file \<longrightarrow> files (snd (reset_vectorstore w)) p = files w p)"
proof -
  have rf: "files (snd (reset_vectorstore w)) faiss_file =
       (if files w faiss_file = Some Removable then None else files w faiss_file)
   \<and> files (snd (reset_vectorstore w)) pkl_file =
       (if files w pkl_file = Some Removable \<and> files w faiss_file \<noteq> Some Protected then None
        else files w pkl_file)
   \<and> (p \<noteq> faiss_file \<and> p \<noteq> pkl_file \<longrightarrow> files (snd (reset_vectorstore w)) p = files w p)"
    by (rule reset_files)
  from rf have a: "files (snd (reset_vectorstore w)) faiss_file =
       (if files w faiss_file = Some Removable then None else files w faiss_file)" ..
  from rf have b: "files (snd (reset_vectorstore w)) pkl_file =
       (if files w pkl_file = Some Removable \<and> files w faiss_file \<noteq> Some Protected then None
        else files w pkl_file)"
    by (elim conjE)
  from rf have c: "p \<noteq> faiss_file \<and> p \<noteq> pkl_file \<longrightarrow> files (snd (reset_vectorstore w)) p = files w p"
    by (elim conjE)
  from save_files [of e vs w] save_ui [of e vs w] reset_result [of w] a b c
  show ?thesis by (intro conjI)
qed

text \<open>
  C3, amended, at a concrete disk: a reset of the disk with a removable first path and a
  refused second path reports failure, the first path is gone and the second is as it was.
\<close>

theorem artifacts_not_atomic_witness:
  "\<not> fst (reset_vectorstore planted_world)
   \<and> files (snd (reset_vectorstore planted_world)) faiss_file = None
   \<and> files (snd (reset_vectorstore planted_world)) pkl_file = Some Protected
   \<and> files (snd (reset_vectorstore planted_world)) DATA_DIR = None"
proof -
  have f: "files planted_world faiss_file = Some Removable"
    using artifact_paths_differ by (simp add: planted_world_def)
  have g: "files planted_world pkl_file = Some Protected"
    by (simp add: planted_world_def)
  have h: "DATA_DIR \<noteq> faiss_file \<and> DATA_DIR \<noteq> pkl_file"
    by (simp add: DATA_DIR_def faiss_file_def pkl_file_def FAISS_INDEX_PATH_def)
  have i: "files planted_world DATA_DIR = None"
    using h by (simp add: planted_world_def)
  from artifacts_not_atomic [where w = planted_world and p = DATA_DIR and e = demo_env and vs = 1]
  show ?thesis
    by (simp add: f g h i)
qed

section \<open>Checking a credential\<close>

text \<open>
  C7: on the empty key \<open>validate_api_key\<close> answers \<open>(False, "API key is empty")\<close> and leaves
  the world as it was: no call to the backend is made, whatever the backend is.
\<close>

theorem validate_api_key_empty:
  "validate_api_key e '''' w = ((False, Some ''API key is empty''), w)"
  by (simp add: validate_api_key_def)

theorem validate_api_key_empty_witness:
  "validate_api_key demo_env '''' start_world = ((False, Some ''API key is empty''), start_world)"
  by (rule validate_api_key_empty)

section \<open>The action type of a response\<close>

lemma label_found: "py_find ''Action Type: Update'' ''Action Type:'' 0 = 0"
  by (simp add: py_find_def)

lemma no_newline: "py_find ''Action Type: Update'' ''\<newline>'' 12 = - 1"
  by (simp add: py_find_def)

lemma cut: "py_slice ''Action Type: Update'' 12 (- 1) = '' Updat''"
  by (simp add: py_slice_def slice_index_def)

lemma trimmed: "py_strip '' Updat'' = ''Updat''"
  by (simp add: py_strip_def py_isspace_def)

lemma final_line: "extract_action_type ''Action Type: Update'' = ''Updat''"
  by (simp add: extract_action_type_def py_in_def label_found no_newline cut trimmed)


lemma sentinel_no_label: "\<not> py_in ''Action Type:'' SENTINEL"
  by (simp add: py_in_def py_find_def SENTINEL_def)

lemma sentinel_error: "py_in ''ERROR:'' SENTINEL"
  by (simp add: py_in_def py_find_def SENTINEL_def)

lemma sentinel_action: "extract_action_type SENTINEL = ''Error''"
  by (simp add: extract_action_type_def sentinel_no_label sentinel_error)

text \<open>
  C9, as the spec states it, fails twice. A label on the last line, with no line break
  after it, loses its last character: \<^verbatim>\<open>find\<close> returns \<open>-1\<close>, which the slice reads as
  the index of the last character. And a response without the label that contains
  \<^verbatim>\<open>ERROR:\<close>, such as the sentinel, gets the action type \<^verbatim>\<open>Error\<close>, not \<^verbatim>\<open>Unknown\<close>.
\<close>

theorem extract_action_type_counterexample:
  "extract_action_type ''Action Type: Update'' = ''Updat''
   \<and> \<not> sublist ''Action Type:'' SENTINEL
   \<and> extract_action_type SENTINEL = ''Error''"
  using final_line sentinel_no_label sentinel_action
  by (simp only: py_in_iff_sublist simp_thms)

text \<open>
  C9, amended: when the first occurrence of the label is followed by a line break, the
  action type is the text between the label and that line break, stripped of surrounding
  white space; when the response has no label, the action type is \<^verbatim>\<open>Error\<close> if the
  response contains \<^verbatim>\<open>ERROR:\<close> and \<^verbatim>\<open>Unknown\<close> otherwise.
\<close>

theorem extract_action_type_spec:
  "(\<not> sublist ''Action Type:'' (pre @ butlast ''Action Type:'') \<and> CHR 0x0A \<notin> set mid \<longrightarrow>
      extract_action_type (pre @ ''Action Type:'' @ mid @ ''\<newline>'' @ rest) = py_strip mid)
   \<and> (\<not> sublist ''Action Type:'' txt \<and> sublist ''ERROR:'' txt \<longrightarrow>
      extract_action_type txt = ''Error'')
   \<and> (\<not> sublist ''Action Type:'' txt \<and> \<not> sublist ''ERROR:'' txt \<longrightarrow>
      extract_action_type txt = ''Unknown'')"
proof (intro conjI impI)
  assume "\<not> sublist ''Action Type:'' (pre @ butlast ''Action Type:'') \<and> CHR 0x0A \<notin> set mid"
  then show "extract_action_type (pre @ ''Action Type:'' @ mid @ ''\<newline>'' @ rest) = py_strip mid"
    by (intro extract_labelled) simp_all
next
  assume "\<not> sublist ''Action Type:'' txt \<and> sublist ''ERROR:'' txt"
  then have "\<not> py_in ''Action Type:'' txt" and "py_in ''ERROR:'' txt"
    by (simp_all add: py_in_iff_sublist)
  then show "extract_action_type txt = ''Error''"
    by (simp add: extract_action_type_def)
next
  assume "\<not> sublist ''Action Type:'' txt \<and> \<not> sublist ''ERROR:'' txt"
  then have "\<not> py_in ''Action Type:'' txt" and "\<not> py_in ''ERROR:'' txt"
    by (simp_all add: py_in_iff_sublist)
  then show "extract_action_type txt = ''Unknown''"
    by (simp add: extract_action_type_def)
qed

lemma demo_first: "\<not> sublist ''Action Type:'' (''1. '' @ butlast ''Action Type:'')"
  using py_in_iff_sublist [of "''Action Type:''" "''1. '' @ butlast ''Action Type:''"]
  by (simp add: py_in_def py_find_def)

lemma demo_strip: "py_strip '' Update  '' = ''Update''"
  by (simp add: py_strip_def py_isspace_def)

lemma demo_no_label: "\<not> sublist ''Action Type:'' ''ERROR: denied''"
  using py_in_iff_sublist [of "''Action Type:''" "''ERROR: denied''"]
  by (simp add: py_in_def py_find_def)

lemma demo_error: "sublist ''ERROR:'' ''ERROR: denied''"
  using py_in_iff_sublist [of "''ERROR:''" "''ERROR: denied''"]
  by (simp add: py_in_def py_find_def)

text \<open>
  C9, amended, at concrete responses: a labelled line inside a longer answer, and an
  error text without the label.
\<close>

theorem extract_action_type_spec_witness:
  "extract_action_type (''1. '' @ ''Action Type:'' @ '' Update  '' @ ''\<newline>'' @ ''Target Table(s): Patients'')
     = ''Update''
   \<and> extract_action_type ''ERROR: denied'' = ''Error''"
proof -
  have line: "CHR 0x0A \<notin> set '' Update  ''" by simp
  from extract_action_type_spec [of "''1. ''" "'' Update  ''" "''Target Table(s): Patients''" "''ERROR: denied''"]
    demo_first line demo_no_label demo_error
  show ?thesis by (simp only: demo_strip simp_thms)
qed

section \<open>What the pipeline returns\<close>

lemma ui_st [simp]: "ui (st m w) = ui w @ [m]"
  by (simp add: st_def)

lemma ui_called [simp]: "ui (called c w) = ui w"
  by (simp add: called_def)

lemma calls_st [simp]: "calls (st m w) = calls w"
  by (simp add: st_def)

lemma calls_called [simp]: "calls (called c w) = calls w @ [c]"
  by (simp add: called_def)

lemma key_st [simp]: "google_api_key (st m w) = google_api_key w"
  by (simp add: st_def)

lemma key_called [simp]: "google_api_key (called c w) = google_api_key w"
  by (simp add: called_def)

lemma process_answer:
  assumes "process e vs input w = (Inr r, w')"
  shows "\<exists>key docs. google_api_key w = Some key \<and> key \<noteq> [] \<and> llm_init e LLM_MODEL key = None
           \<and> retriever e vs input = Inr docs
           \<and> llm_generate e LLM_MODEL key
                (render_prompt (py_join ''\<newline>\<newline>'' (map page_content docs)) input) = Inr (answer r)"
  using assms
  by (auto simp: process_def create_retrieval_chain_with_vectorstore_def setup_llm_chain_def
        invoke_def Let_def
      split: option.splits if_splits sum.splits prod.splits)

lemma response_rule_in_tail: "\<exists>a b. TEMPLATE_TAIL = a @ RESPONSE_RULE @ b"
proof -
  have "TEMPLATE_TAIL = ('''' @ ''\<newline>'' @ '''' @ ''\<newline>'' @ ''### Response:'' @ ''\<newline>'')
          @ RESPONSE_RULE @ (drop (length ('''' @ ''\<newline>'' @ '''' @ ''\<newline>'' @ ''### Response:'' @ ''\<newline>'')
               + length RESPONSE_RULE) TEMPLATE_TAIL)"
    by (simp only: TEMPLATE_TAIL_def py_join.simps append_assoc append_eq_conv_conj)
       simp
  then show ?thesis by blast
qed

lemma rule_in_prompt: "sublist RESPONSE_RULE (render_prompt ctx input)"
proof -
  from response_rule_in_tail obtain a b where "TEMPLATE_TAIL = a @ RESPONSE_RULE @ b"
    by blast
  then have "render_prompt ctx input =
      (TEMPLATE_HEAD @ ctx @ ''\<newline>### Service Request:\<newline>'' @ input @ a) @ RESPONSE_RULE @ b"
    by (simp add: render_prompt_def)
  then show ?thesis
    by (simp only: sublist_appendI)
qed

lemma sentinel_in_rule: "sublist SENTINEL RESPONSE_RULE"
  unfolding RESPONSE_RULE_def by (rule sublist_appendI)

lemma demo_process:
  "process demo_env 0 input start_world =
     (Inr \<lparr>question = input, retrieved = [],
           answer = ''Action Type: Report\<newline>Target Table(s): Doctors''\<rparr>,
      called (Llm_generate (render_prompt [] input))
        (called (Retriever_query input)
           (called (Llm_init LLM_MODEL ''demo-key'') start_world)))"
  by (simp add: process_def create_retrieval_chain_with_vectorstore_def setup_llm_chain_def
        invoke_def Let_def demo_env_def start_world_def called_def)

lemma report_not_sentinel: "''Action Type: Report\<newline>Target Table(s): Doctors'' \<noteq> SENTINEL"
  by (simp add: SENTINEL_def)

text \<open>
  C4, as the spec states it, fails: the answer is the backend's text. For the request about
  kids, which the prompt itself lists as one that names an entity outside the schema, a
  backend that answers with a report makes the pipeline return that report, not the
  sentinel.
\<close>

theorem process_counterexample:
  "fst (process demo_env 0
          ''List all kids specialized in Neurology currently assigned to hospital ID 3'' start_world)
     = Inr \<lparr>question = ''List all kids specialized in Neurology currently assigned to hospital ID 3'',
            retrieved = [],
            answer = ''Action Type: Report\<newline>Target Table(s): Doctors''\<rparr>
   \<and> ''Action Type: Report\<newline>Target Table(s): Doctors'' \<noteq> SENTINEL"
  by (simp only: demo_process report_not_sentinel fst_conv simp_thms)

text \<open>
  C4, amended: every rendered prompt contains the instruction to respond only with the
  sentinel, and a request that completes returns, unchanged, the text that the backend
  produced for the rendered prompt; so the response is exactly the sentinel when, and only
  when, the backend answered with exactly the sentinel. The program itself checks no
  request against the schema.
\<close>

theorem process_returns_backend_text:
  "sublist RESPONSE_RULE (render_prompt ctx input)
   \<and> sublist SENTINEL RESPONSE_RULE
   \<and> (process e vs input w = (Inr r, w') \<longrightarrow>
        (\<exists>key docs. google_api_key w = Some key \<and> retriever e vs input = Inr docs
           \<and> llm_generate e LLM_MODEL key
                (render_prompt (py_join ''\<newline>\<newline>'' (map page_content docs)) input) = Inr (answer r)))"
proof (intro conjI impI)
  show "sublist RESPONSE_RULE (render_prompt ctx input)" by (rule rule_in_prompt)
  show "sublist SENTINEL RESPONSE_RULE" by (rule sentinel_in_rule)
next
  assume "process e vs input w = (Inr r, w')"
  from process_answer [OF this] show "\<exists>key docs. google_api_key w = Some key \<and> retriever e vs input = Inr docs
           \<and> llm_generate e LLM_MODEL key
                (render_prompt (py_join ''\<newline>\<newline>'' (map page_content docs)) input) = Inr (answer r)"
    by blast
qed

lemma sentinel_process:
  "process (demo_env\<lparr>llm_generate := (\<lambda>model api_key prompt. Inr SENTINEL)\<rparr>) 0 ''Add insurance'' start_world =
     (Inr \<lparr>question = ''Add insurance'', retrieved = [], answer = SENTINEL\<rparr>,
      called (Llm_generate (render_prompt [] ''Add insurance''))
        (called (Retriever_query ''Add insurance'')
           (called (Llm_init LLM_MODEL ''demo-key'') start_world)))"
  by (simp add: process_def create_retrieval_chain_with_vectorstore_def setup_llm_chain_def
        invoke_def Let_def demo_env_def start_world_def called_def)

text \<open>
  C4, amended, at a concrete request: with a backend that answers with the sentinel, the
  text generated for the rendered prompt of the request is the sentinel.
\<close>

theorem process_returns_backend_text_witness:
  "\<exists>key docs. google_api_key start_world = Some key
     \<and> retriever (demo_env\<lparr>llm_generate := (\<lambda>model api_key prompt. Inr SENTINEL)\<rparr>) 0 ''Add insurance''
         = Inr docs
     \<and> llm_generate (demo_env\<lparr>llm_generate := (\<lambda>model api_key prompt. Inr SENTINEL)\<rparr>) LLM_MODEL key
          (render_prompt (py_join ''\<newline>\<newline>'' (map page_content docs)) ''Add insurance'')
         = Inr SENTINEL"
  using process_returns_backend_text
    [where e = "demo_env\<lparr>llm_generate := (\<lambda>model api_key prompt. Inr SENTINEL)\<rparr>"
       and vs = 0 and input = "''Add insurance''" and w = start_world and ctx = "[]"
       and r = "\<lparr>question = ''Add insurance'', retrieved = [], answer = SENTINEL\<rparr>"
       and w' = "called (Llm_generate (render_prompt [] ''Add insurance''))
        (called (Retriever_query ''Add insurance'')
           (called (Llm_init LLM_MODEL ''demo-key'') start_world))"]
    sentinel_process
  by simp

section \<open>The request history\<close>

lemma main_request_cases:
  "main_request e input_text submit_button s w =
     (if vectorstore s \<noteq> None \<and> submit_button \<and> input_text \<noteq> [] then
        (case process e (the (vectorstore s)) input_text w of
           (Inr r, w1) \<Rightarrow>
             (s\<lparr>history := history s @ [(input_text, extract_action_type (answer r))]\<rparr>,
              display_response r w1)
         | (Inl (ValueError m), w1) \<Rightarrow>
             (s\<lparr>api_key_valid := False\<rparr>,
              st (Button ''Re-enter API Key'') (st (Error (''API Key Error: '' @ m)) w1))
         | (Inl (OtherError m), w1) \<Rightarrow> (s, st (Error (''An error occurred: '' @ m)) w1))
      else (s, w))"
  by (cases "vectorstore s")
     (auto simp: main_request_def Let_def split: prod.split sum.split exn.split)

lemma main_request_prefix:
  "prefix (history s) (history (fst (main_request e input_text submit_button s w)))"
  by (simp add: main_request_cases split: prod.split sum.split exn.split)

lemma main_request_raised:
  "vectorstore s = None \<or> \<not> submit_button \<or> input_text = []
     \<or> (\<exists>x. fst (process e (the (vectorstore s)) input_text w) = Inl x)
   \<Longrightarrow> history (fst (main_request e input_text submit_button s w)) = history s"
  by (auto simp: main_request_cases split: prod.split sum.split exn.split)

lemma main_request_appends:
  assumes "vectorstore s = Some vs" and "submit_button" and "input_text \<noteq> []"
    and "process e vs input_text w = (Inr r, w1)"
  shows "history (fst (main_request e input_text submit_button s w))
     = history s @ [(input_text, extract_action_type (answer r))]"
  using assms by (simp add: main_request_cases)

text \<open>
  C10: a submission never removes or reorders an entry (the old history is a prefix of the
  new one). A submission that is processed (an index in the session, the button pressed, a
  non-empty text) and completes without raising appends exactly the pair of the request
  text and the extracted action type, so the history grows by one; the action type is
  \<^verbatim>\<open>Error\<close> when the response contains \<^verbatim>\<open>ERROR:\<close> and no label. A submission that is
  not processed, or that raises, leaves the history as it was.
\<close>

theorem main_request_history:
  "prefix (history s) (history (fst (main_request e input_text submit_button s w)))
   \<and> (vectorstore s = Some vs \<and> submit_button \<and> input_text \<noteq> []
        \<and> process e vs input_text w = (Inr r, w1) \<longrightarrow>
        history (fst (main_request e input_text submit_button s w))
          = history s @ [(input_text, extract_action_type (answer r))]
        \<and> length (history (fst (main_request e input_text submit_button s w)))
          = Suc (length (history s))
        \<and> (sublist ''ERROR:'' (answer r) \<and> \<not> sublist ''Action Type:'' (answer r) \<longrightarrow>
             extract_action_type (answer r) = ''Error''))
   \<and> (vectorstore s = None \<or> \<not> submit_button \<or> input_text = []
        \<or> (\<exists>x. fst (process e (the (vectorstore s)) input_text w) = Inl x) \<longrightarrow>
        history (fst (main_request e input_text submit_button s w)) = history s)"
proof (intro conjI impI)
  show "prefix (history s) (history (fst (main_request e input_text submit_button s w)))"
    by (rule main_request_prefix)
next
  assume a: "vectorstore s = Some vs \<and> submit_button \<and> input_text \<noteq> []
        \<and> process e vs input_text w = (Inr r, w1)"
  then show h: "history (fst (main_request e input_text submit_button s w))
          = history s @ [(input_text, extract_action_type (answer r))]"
    using main_request_appends [where s = s and vs = vs and e = e and w = w and r = r and ?w1.0 = w1
        and submit_button = submit_button and input_text = input_text]
    by simp
  then show "length (history (fst (main_request e input_text submit_button s w)))
          = Suc (length (history s))"
    by simp
next
  assume "sublist ''ERROR:'' (answer r) \<and> \<not> sublist ''Action Type:'' (answer r)"
  then have "py_in ''ERROR:'' (answer r)" and "\<not> py_in ''Action Type:'' (answer r)"
    by (simp_all add: py_in_iff_sublist)
  then show "extract_action_type (answer r) = ''Error''"
    by (simp add: extract_action_type_def)
next
  assume "vectorstore s = None \<or> \<not> submit_button \<or> input_text = []
        \<or> (\<exists>x. fst (process e (the (vectorstore s)) input_text w) = Inl x)"
  then show "history (fst (main_request e input_text submit_button s w)) = history s"
    by (rule main_request_raised)
qed

text \<open>
  C10, at a concrete submission: a request answered with the sentinel is appended to a
  history of one entry, with the action type \<^verbatim>\<open>Error\<close>.
\<close>

theorem main_request_history_witness:
  "history (fst (main_request (demo_env\<lparr>llm_generate := (\<lambda>model api_key prompt. Inr SENTINEL)\<rparr>)
       ''Add insurance'' True
       \<lparr>history = [(''List all doctors'', ''Report'')], api_key_valid = True, vectorstore = Some 0\<rparr>
       start_world))
   = [(''List all doctors'', ''Report''), (''Add insurance'', ''Error'')]"
proof -
  let ?e = "demo_env\<lparr>llm_generate := (\<lambda>model api_key prompt. Inr SENTINEL)\<rparr>"
  let ?s = "\<lparr>history = [(''List all doctors'', ''Report'')], api_key_valid = True,
             vectorstore = Some (0::nat)\<rparr>"
  let ?r = "\<lparr>question = ''Add insurance'', retrieved = [], answer = SENTINEL\<rparr>"
  have "history (fst (main_request ?e ''Add insurance'' True ?s start_world))
      = history ?s @ [(''Add insurance'', extract_action_type (answer ?r))]"
    using main_request_history
      [where e = ?e and input_text = "''Add insurance''" and submit_button = True and s = ?s
         and w = start_world and vs = 0 and r = ?r
         and ?w1.0 = "called (Llm_generate (render_prompt [] ''Add insurance''))
        (called (Retriever_query ''Add insurance'')
           (called (Llm_init LLM_MODEL ''demo-key'') start_world))"]
      sentinel_process
    by simp
  then show ?thesis
    by (simp add: sentinel_action)
qed

section \<open>A session without documents\<close>

lemma load_vectorstore_absent:
  "\<not> os_path_exists (files w) faiss_file \<Longrightarrow> load_vectorstore e w = (None, w)"
  by (simp add: load_vectorstore_def)

lemma build_index_unsaved_files:
  "files (snd (build_index e cfg documents False w)) = files w"
  by (simp add: build_index_def Let_def split: option.split sum.split)

lemma build_index_unsaved_ui:
  "ui (snd (build_index e cfg documents False w)) = ui w"
  by (simp add: build_index_def Let_def split: option.split sum.split)

lemma build_index_unsaved_calls:
  "calls (snd (build_index e cfg documents False w)) = calls w @ Embeddings_init cfg #
     (if embeddings_init e cfg = None then [Faiss_from_documents documents cfg] else [])"
  by (simp add: build_index_def Let_def split: option.split sum.split)

lemma build_index_unsaved_result:
  "fst (build_index e cfg documents False w) =
     (case embeddings_init e cfg of
        Some x \<Rightarrow> Inl x
      | None \<Rightarrow> faiss_from_documents e documents cfg)"
  by (simp add: build_index_def Let_def split: option.split sum.split)

lemma main_vectorstore_empty:
  assumes "vectorstore s = None" and "\<not> os_path_exists (files w) faiss_file"
    and "loader_load e DATA_DIR = Inr []"
  shows "main_vectorstore e s w =
     store_or_simplify e None s
       (st (Warning (''No documents found in '' @ DATA_DIR @ ''. Please check the path.''))
          (called (Loader_load DATA_DIR) (st (Info ''Attempting to load documents'') w)))"
  using assms
  by (simp add: main_vectorstore_def load_vectorstore_absent load_documents_def Let_def)

lemma store_or_simplify_None:
  "store_or_simplify e None s w =
     (case build_index e simple_embeddings simple_docs False
             (st (Warning ''Could not create a proper vector database. Using a simplified version for testing.'') w) of
        (Inr v, w2) \<Rightarrow>
          (s\<lparr>vectorstore := Some v\<rparr>,
           st (Info ''Using simplified vector database for basic functionality.'') w2)
      | (Inl x2, w2) \<Rightarrow>
          (s, st (Error ''The application cannot function without a vector database.'')
                (st (Error (''Could not create even a simplified vector database: '' @ str_exn x2)) w2)))"
  by (simp add: store_or_simplify_def Let_def)

text \<open>
  C5, as the spec states it, fails: with no index on disk and a loader that finds no
  document, the session does not stay without an index. \<^verbatim>\<open>main\<close> builds the simplified
  index from its one test document and keeps it in the session.
\<close>

theorem main_vectorstore_counterexample:
  "vectorstore (fst (main_vectorstore demo_env
       \<lparr>history = [], api_key_valid = True, vectorstore = None\<rparr> start_world)) = Some 1"
proof -
  let ?s = "\<lparr>history = [], api_key_valid = True, vectorstore = None :: nat option\<rparr>"
  have "\<not> os_path_exists (files start_world) faiss_file"
    by (simp add: os_path_exists_def start_world_def)
  moreover have "loader_load demo_env DATA_DIR = Inr []"
    by (simp add: demo_env_def)
  ultimately have "main_vectorstore demo_env ?s start_world =
     store_or_simplify demo_env None ?s
       (st (Warning (''No documents found in '' @ DATA_DIR @ ''. Please check the path.''))
          (called (Loader_load DATA_DIR) (st (Info ''Attempting to load documents'') start_world)))"
    by (intro main_vectorstore_empty) simp_all
  then show ?thesis
    by (simp add: store_or_simplify_def build_index_def Let_def demo_env_def simple_docs_def)
qed

text \<open>
  C5, amended: when no index is on disk and loading yields no document, \<^verbatim>\<open>main\<close>
  reports that no documents were found, neither splits nor builds nor saves an index from
  documents, and leaves the files untouched; it then tries the simplified index over its one
  test document, and the session has an index exactly when that attempt succeeds.
\<close>

theorem main_vectorstore_no_documents:
  "vectorstore s = None \<and> \<not> os_path_exists (files w) faiss_file \<and> loader_load e DATA_DIR = Inr []
   \<longrightarrow>
     files (snd (main_vectorstore e s w)) = files w
   \<and> Warning (''No documents found in '' @ DATA_DIR @ ''. Please check the path.'')
        \<in> set (ui (snd (main_vectorstore e s w)))
   \<and> calls (snd (main_vectorstore e s w)) =
        calls w @ [Loader_load DATA_DIR, Embeddings_init simple_embeddings] @
          (if embeddings_init e simple_embeddings = None
           then [Faiss_from_documents simple_docs simple_embeddings] else [])
   \<and> vectorstore (fst (main_vectorstore e s w)) =
        (case embeddings_init e simple_embeddings of
           Some x \<Rightarrow> None
         | None \<Rightarrow>
             (case faiss_from_documents e simple_docs simple_embeddings of
                Inr v \<Rightarrow> Some v
              | Inl x \<Rightarrow> None))"
proof (intro impI)
  assume a: "vectorstore s = None \<and> \<not> os_path_exists (files w) faiss_file
      \<and> loader_load e DATA_DIR = Inr []"
  let ?w1 = "st (Warning ''Could not create a proper vector database. Using a simplified version for testing.'')
       (st (Warning (''No documents found in '' @ DATA_DIR @ ''. Please check the path.''))
          (called (Loader_load DATA_DIR) (st (Info ''Attempting to load documents'') w)))"
  obtain r w2 where b: "build_index e simple_embeddings simple_docs False ?w1 = (r, w2)"
    by (cases "build_index e simple_embeddings simple_docs False ?w1") blast
  from a have m0: "main_vectorstore e s w =
     store_or_simplify e None s
       (st (Warning (''No documents found in '' @ DATA_DIR @ ''. Please check the path.''))
          (called (Loader_load DATA_DIR) (st (Info ''Attempting to load documents'') w)))"
    by (intro main_vectorstore_empty) simp_all
  have m: "main_vectorstore e s w =
      (case (r, w2) of
        (Inr v, w2) \<Rightarrow>
          (s\<lparr>vectorstore := Some v\<rparr>,
           st (Info ''Using simplified vector database for basic functionality.'') w2)
      | (Inl x2, w2) \<Rightarrow>
          (s, st (Error ''The application cannot function without a vector database.'')
                (st (Error (''Could not create even a simplified vector database: '' @ str_exn x2)) w2)))"
    by (simp only: m0 store_or_simplify_None b)
  have f: "files w2 = files w"
    using build_index_unsaved_files [of e simple_embeddings simple_docs ?w1] b by simp
  have u: "ui w2 = ui ?w1"
    using build_index_unsaved_ui [of e simple_embeddings simple_docs ?w1] b by simp
  have c: "calls w2 = calls w @ [Loader_load DATA_DIR, Embeddings_init simple_embeddings] @
          (if embeddings_init e simple_embeddings = None
           then [Faiss_from_documents simple_docs simple_embeddings] else [])"
    using build_index_unsaved_calls [of e simple_embeddings simple_docs ?w1] b by simp
  have v: "r = (case embeddings_init e simple_embeddings of
        Some x \<Rightarrow> Inl x
      | None \<Rightarrow> faiss_from_documents e simple_docs simple_embeddings)"
    using build_index_unsaved_result [of e simple_embeddings simple_docs ?w1] b by simp
  have 1: "files (snd (main_vectorstore e s w)) = files w"
    by (cases r) (simp_all add: m f)
  have 2: "Warning (''No documents found in '' @ DATA_DIR @ ''. Please check the path.'')
        \<in> set (ui (snd (main_vectorstore e s w)))"
    by (cases r) (simp_all add: m u)
  have 3: "calls (snd (main_vectorstore e s w)) =
        calls w @ [Loader_load DATA_DIR, Embeddings_init simple_embeddings] @
          (if embeddings_init e simple_embeddings = None
           then [Faiss_from_documents simple_docs simple_embeddings] else [])"
    by (cases r) (simp_all only: m c prod.case sum.case snd_conv calls_st)
  have 4: "vectorstore (fst (main_vectorstore e s w)) =
        (case embeddings_init e simple_embeddings of
           Some x \<Rightarrow> None
         | None \<Rightarrow>
             (case faiss_from_documents e simple_docs simple_embeddings of
                Inr v \<Rightarrow> Some v
              | Inl x \<Rightarrow> None))"
    using a by (cases r) (auto simp: m v split: option.splits sum.splits)
  from 1 2 3 4 show "files (snd (main_vectorstore e s w)) = files w
   \<and> Warning (''No documents found in '' @ DATA_DIR @ ''. Please check the path.'')
        \<in> set (ui (snd (main_vectorstore e s w)))
   \<and> calls (snd (main_vectorstore e s w)) =
        calls w @ [Loader_load DATA_DIR, Embeddings_init simple_embeddings] @
          (if embeddings_init e simple_embeddings = None
           then [Faiss_from_documents simple_docs simple_embeddings] else [])
   \<and> vectorstore (fst (main_vectorstore e s w)) =
        (case embeddings_init e simple_embeddings of
           Some x \<Rightarrow> None
         | None \<Rightarrow>
             (case faiss_from_documents e simple_docs simple_embeddings of
                Inr v \<Rightarrow> Some v
              | Inl x \<Rightarrow> None))"
    by (intro conjI)
qed

text \<open>
  C5, amended, at a concrete session: when the embedding model cannot be initialised, the
  only calls are the loader's and the failed initialisation, and the session has no index.
\<close>

theorem main_vectorstore_no_documents_witness:
  "files (snd (main_vectorstore (demo_env\<lparr>embeddings_init := (\<lambda>cfg. Some (OtherError ''meta tensor''))\<rparr>)
       \<lparr>history = [], api_key_valid = True, vectorstore = None\<rparr> start_world)) = files start_world
   \<and> calls (snd (main_vectorstore (demo_env\<lparr>embeddings_init := (\<lambda>cfg. Some (OtherError ''meta tensor''))\<rparr>)
       \<lparr>history = [], api_key_valid = True, vectorstore = None\<rparr> start_world))
       = [Loader_load DATA_DIR, Embeddings_init simple_embeddings]
   \<and> vectorstore (fst (main_vectorstore (demo_env\<lparr>embeddings_init := (\<lambda>cfg. Some (OtherError ''meta tensor''))\<rparr>)
       \<lparr>history = [], api_key_valid = True, vectorstore = None\<rparr> start_world)) = None"
proof -
  let ?e = "demo_env\<lparr>embeddings_init := (\<lambda>cfg. Some (OtherError ''meta tensor''))\<rparr>"
  let ?s = "\<lparr>history = [], api_key_valid = True, vectorstore = None :: nat option\<rparr>"
  have h1: "vectorstore ?s = None" by simp
  have h2: "\<not> os_path_exists (files start_world) faiss_file"
    by (simp add: os_path_exists_def start_world_def)
  have h3: "loader_load ?e DATA_DIR = Inr []"
    by (simp add: demo_env_def)
  have h4: "embeddings_init ?e simple_embeddings = Some (OtherError ''meta tensor'')"
    by simp
  have h5: "calls start_world = []"
    by (simp add: start_world_def)
  from main_vectorstore_no_documents [of ?s start_world ?e] h1 h2 h3
  show ?thesis
    by (simp only: h4 h5 simp_thms option.case if_False option.distinct append_Nil append_Nil2 append_Cons)
qed

section \<open>Loading after a save\<close>

text \<open>
  \<open>load_vectorstore\<close> looks for the same path as \<open>reset_vectorstore\<close>: on the disk right
  after a successful save it finds nothing and returns \<open>None\<close> without calling the library.
\<close>

lemma load_after_save: "load_vectorstore demo_env saved_world = (None, saved_world)"
  using saved_invisible(1) by (rule load_vectorstore_absent)

end
